theory Spec2Isabelle
  imports Main
begin

section \<open>Python values used by \<open>run_code\<close>\<close>

text \<open>
  A Python \<open>str\<close> is a sequence of Unicode code points; \<open>len\<close> counts code points.
  It is modelled as a list of natural numbers. \<open>lit\<close> turns an ASCII literal of the
  source into such a list.
\<close>

type_synonym pystr = "nat list"

definition lit :: "string \<Rightarrow> pystr" where
  "lit s = map of_char s"

text \<open>
  The value returned by \<open>request.get_json(silent=True)\<close>, and the values passed to
  \<open>jsonify\<close>. \<open>JNull\<close> is Python's \<open>None\<close>: it is what \<open>get_json(silent=True)\<close>
  returns for a body that is not JSON, and what the JSON text \<open>null\<close> parses to.
  \<open>JObj\<close> holds the items of a Python \<open>dict\<close>; \<open>dict.get\<close> is \<open>map_of\<close>.
  Only integral JSON numbers are modelled.
\<close>

datatype json =
    JNull
  | JBool bool
  | JNum int
  | JStr pystr
  | JArr "json list"
  | JObj "(pystr \<times> json) list"

text \<open>Python exceptions that can occur in \<open>run_code\<close>; all are subclasses of \<open>Exception\<close>.\<close>

datatype exn = AttributeError | OSError | UnicodeError | TimeoutExpired

datatype 'a outcome = Returned 'a | Raised exn

text \<open>Truth value of a Python object, as tested by \<open>or\<close>.\<close>

fun truthy :: "json \<Rightarrow> bool" where
  "truthy JNull = False"
| "truthy (JBool b) = b"
| "truthy (JNum n) = (n \<noteq> 0)"
| "truthy (JStr s) = (s \<noteq> [])"
| "truthy (JArr xs) = (xs \<noteq> [])"
| "truthy (JObj kvs) = (kvs \<noteq> [])"

text \<open>\<open>data.get(key, default)\<close>: only a \<open>dict\<close> has the method \<open>get\<close>.\<close>

fun py_get :: "json \<Rightarrow> pystr \<Rightarrow> json \<Rightarrow> exn + json" where
  "py_get (JObj kvs) k d = Inr (case map_of kvs k of None \<Rightarrow> d | Some v \<Rightarrow> v)"
| "py_get _ k d = Inl AttributeError"

text \<open>Lines 15-16: \<open>data = request.get_json(silent=True) or {}; code = data.get("code", "")\<close>.\<close>

definition request_code :: "json \<Rightarrow> exn + json" where
  "request_code parsed =
     (let data = (if truthy parsed then parsed else JObj [])
      in py_get data (lit ''code'') (JStr (lit '''')))"

subsection \<open>String methods\<close>

text \<open>\<open>sub in s\<close> for strings: \<open>sub\<close> occurs in \<open>s\<close> as a contiguous run.\<close>

fun startswith :: "pystr \<Rightarrow> pystr \<Rightarrow> bool" where
  "startswith s [] = True"
| "startswith [] (p # ps) = False"
| "startswith (c # cs) (p # ps) = (c = p \<and> startswith cs ps)"

fun contains :: "pystr \<Rightarrow> pystr \<Rightarrow> bool" where
  "contains sub [] = (sub = [])"
| "contains sub (c # cs) = (startswith (c # cs) sub \<or> contains sub cs)"

text \<open>\<open>s.rstrip("\n")\<close> removes every trailing line feed (code point 10).\<close>

definition rstrip_nl :: "pystr \<Rightarrow> pystr" where
  "rstrip_nl s = rev (dropWhile (\<lambda>c. c = 10) (rev s))"

text \<open>
  \<open>s.strip()\<close> removes leading and trailing whitespace; \<open>isspace\<close> lists the code points
  that Python's \<open>str\<close> treats as whitespace.
\<close>

definition isspace :: "nat \<Rightarrow> bool" where
  "isspace c =
     ((9 \<le> c \<and> c \<le> 13) \<or> (28 \<le> c \<and> c \<le> 32) \<or> c = 133 \<or> c = 160 \<or> c = 5760
      \<or> (8192 \<le> c \<and> c \<le> 8202) \<or> c = 8232 \<or> c = 8233 \<or> c = 8239 \<or> c = 8287
      \<or> c = 12288)"

definition strip :: "pystr \<Rightarrow> pystr" where
  "strip s = rev (dropWhile isspace (rev (dropWhile isspace s)))"

text \<open>\<open>a or b\<close> on strings.\<close>

definition str_or :: "pystr \<Rightarrow> pystr \<Rightarrow> pystr" where
  "str_or a b = (if a \<noteq> [] then a else b)"

text \<open>\<open>os.path.join(a, b)\<close> on a POSIX host (separator code point 47).\<close>

definition path_join :: "pystr \<Rightarrow> pystr \<Rightarrow> pystr" where
  "path_join a b =
     (if startswith b [47] then b
      else if a = [] \<or> last a = 47 then a @ b
      else a @ [47] @ b)"

section \<open>The environment of a request\<close>

text \<open>
  What \<open>subprocess.run(..., capture_output=True, text=True)\<close> returns: a
  \<open>CompletedProcess\<close>.
\<close>

record completed =
  returncode :: int
  stdout :: pystr
  stderr :: pystr

text \<open>
  Everything \<open>run_code\<close> obtains from outside: whether \<open>os.makedirs\<close>, \<open>open\<close> and
  \<open>f.write\<close> return or raise, the 32 hexadecimal digits of \<open>uuid.uuid4().hex\<close>, the result
  of \<open>os.getcwd()\<close>, and the outcomes of the two \<open>subprocess.run\<close> calls (\<open>docker run\<close> and
  \<open>docker rm\<close>).
\<close>

record env =
  makedirs_result :: "unit outcome"
  uuid4_hex :: pystr
  open_result :: "unit outcome"
  write_result :: "unit outcome"
  getcwd :: pystr
  run_result :: "completed outcome"
  rm_result :: "completed outcome"

text \<open>The side effects a request issues, in order.\<close>

datatype effect =
    MakeDirs pystr
  | OpenWrite pystr
  | FileWrite pystr pystr
  | Subprocess "pystr list" nat

text \<open>A Flask response: the value given to \<open>jsonify\<close> and the status code.\<close>

type_synonym response = "json \<times> nat"

section \<open>The request handler\<close>

text \<open>Line 35: \<open>container_name = f"runpy-{file_id}"\<close>.\<close>

definition container_name :: "pystr \<Rightarrow> pystr" where
  "container_name file_id = lit ''runpy-'' @ file_id"

text \<open>Lines 39-50: the \<open>docker run\<close> command.\<close>

definition docker_cmd :: "pystr \<Rightarrow> pystr \<Rightarrow> pystr list" where
  "docker_cmd cwd file_id =
     [lit ''docker'', lit ''run'', lit ''--rm'',
      lit ''--name'', container_name file_id,
      lit ''--network'', lit ''none'',
      lit ''--memory=128m'',
      lit ''--memory-swap=128m'',
      lit ''--pids-limit=64'',
      lit ''--cpus=1'',
      lit ''-v'', cwd @ lit ''/tmp:/scripts:ro'',
      lit ''python:3.11-slim'',
      lit ''python'', lit ''/scripts/'' @ file_id @ lit ''.py'']"

text \<open>Lines 58-59: the forced removal issued after a timeout.\<close>

definition rm_cmd :: "pystr \<Rightarrow> pystr list" where
  "rm_cmd name = [lit ''docker'', lit ''rm'', lit ''-f'', name]"

text \<open>
  Line 73: the out-of-memory test on a non-zero exit,
  \<open>rc == 137 or "Killed" in stderr or "Out of memory" in stderr or "MemoryError" in stderr\<close>.
\<close>

definition has_oom_marker :: "pystr \<Rightarrow> bool" where
  "has_oom_marker err =
     (contains (lit ''Killed'') err \<or> contains (lit ''Out of memory'') err
      \<or> contains (lit ''MemoryError'') err)"

definition oom_detected :: "int \<Rightarrow> pystr \<Rightarrow> bool" where
  "oom_detected rc err = (rc = 137 \<or> has_oom_marker err)"

text \<open>Lines 64-81: the response for a \<open>docker run\<close> that completed within the deadline.\<close>

definition completed_response :: "completed \<Rightarrow> response" where
  "completed_response proc =
     (let out = str_or (stdout proc) (lit '''');
          err = str_or (stderr proc) (lit '''');
          rc = returncode proc
      in if rc = 0 then
           (JObj [(lit ''output'', JStr (rstrip_nl out)), (lit ''error'', JStr (lit ''''))], 200)
         else if oom_detected rc err then
           (JObj [(lit ''output'', JStr (rstrip_nl out)),
                  (lit ''error'', JStr (lit ''Memory limit exceeded (container killed)''))], 200)
         else
           (JObj [(lit ''output'', JStr (rstrip_nl out)),
                  (lit ''error'', JStr (strip err)),
                  (lit ''exit_code'', JNum rc)], 200))"

text \<open>Line 62: the response after the host-side deadline expired.\<close>

definition timeout_response :: response where
  "timeout_response =
     (JObj [(lit ''output'', JStr (lit '''')),
            (lit ''error'', JStr (lit ''Execution timed out after 10 seconds''))], 200)"

text \<open>
  Lines 53-81: \<open>subprocess.run(cmd, ..., timeout=10)\<close> and what follows. Only
  \<open>TimeoutExpired\<close> is caught; on it \<open>docker rm -f\<close> is issued with a timeout of 5
  seconds and every exception of that call is discarded (\<open>except Exception: pass\<close>).
\<close>

definition execute :: "env \<Rightarrow> pystr \<Rightarrow> effect list \<times> (exn + response)" where
  "execute e file_id =
     (let cmd = docker_cmd (getcwd e) file_id
      in case run_result e of
           Raised x \<Rightarrow>
             if x = TimeoutExpired then
               ([Subprocess cmd 10, Subprocess (rm_cmd (container_name file_id)) 5],
                case rm_result e of
                  Raised y \<Rightarrow> Inr timeout_response
                | Returned r \<Rightarrow> Inr timeout_response)
             else ([Subprocess cmd 10], Inl x)
         | Returned proc \<Rightarrow> ([Subprocess cmd 10], Inr (completed_response proc)))"

text \<open>Line 29: \<open>file_id = uuid.uuid4().hex[:12]\<close>.\<close>

definition new_file_id :: "env \<Rightarrow> pystr" where
  "new_file_id e = take 12 (uuid4_hex e)"

text \<open>Line 30: \<open>file_path = os.path.join(tmp_folder, f"{file_id}.py")\<close>.\<close>

definition artifact_path :: "pystr \<Rightarrow> pystr" where
  "artifact_path file_id = path_join (lit ''tmp'') (file_id @ lit ''.py'')"

text \<open>Lines 24-32: staging the code in \<open>tmp/<file_id>.py\<close>, then lines 34-81.\<close>

definition stage_and_execute :: "env \<Rightarrow> pystr \<Rightarrow> effect list \<times> (exn + response)" where
  "stage_and_execute e code =
     (case makedirs_result e of
        Raised x \<Rightarrow> ([MakeDirs (lit ''tmp'')], Inl x)
      | Returned u \<Rightarrow>
          (let file_id = new_file_id e;
               file_path = artifact_path file_id
           in (case open_result e of
                 Raised x \<Rightarrow> ([MakeDirs (lit ''tmp''), OpenWrite file_path], Inl x)
               | Returned u \<Rightarrow>
                   (case write_result e of
                      Raised x \<Rightarrow>
                        ([MakeDirs (lit ''tmp''), OpenWrite file_path,
                          FileWrite file_path code], Inl x)
                    | Returned u \<Rightarrow>
                        ([MakeDirs (lit ''tmp''), OpenWrite file_path,
                          FileWrite file_path code] @ fst (execute e file_id),
                         snd (execute e file_id))))))"

text \<open>
  The handler of \<open>POST /run\<close>. The result is the trace of side effects and either the
  exception that escapes the handler (Flask answers it with status 500) or the response.
\<close>

definition run_code :: "json \<Rightarrow> env \<Rightarrow> effect list \<times> (exn + response)" where
  "run_code parsed e =
     (case request_code parsed of
        Inl x \<Rightarrow> ([], Inl x)
      | Inr code \<Rightarrow>
          (case code of
             JStr s \<Rightarrow>
               if 5000 < length s then
                 ([], Inr (JObj [(lit ''error'', JStr (lit ''Code too long (max 5000 chars)''))], 400))
               else stage_and_execute e s
           | _ \<Rightarrow> ([], Inr (JObj [(lit ''error'', JStr (lit ''code must be a string''))], 400))))"

section \<open>Reading the outcome of a request\<close>

text \<open>
  The four outcome classes of the specification. The response has no field that names
  the class; the class is told apart by what each \<open>return\<close> of the source puts into the
  response: only the generic non-zero exit (lines 77-81) carries \<open>exit_code\<close>, and the
  other three differ in the \<open>error\<close> text (lines 62, 70, 74).
\<close>

datatype classification = Success | Timeout | MemoryLimitExceeded | RuntimeError

text \<open>A field of the JSON object of a response.\<close>

fun field :: "response \<Rightarrow> pystr \<Rightarrow> json option" where
  "field (JObj kvs, st) k = map_of kvs k"
| "field _ k = None"

definition classification_of :: "response \<Rightarrow> classification option" where
  "classification_of r =
     (if snd r \<noteq> 200 then None
      else if field r (lit ''exit_code'') \<noteq> None then Some RuntimeError
      else if field r (lit ''error'') = Some (JStr (lit ''Execution timed out after 10 seconds''))
        then Some Timeout
      else if field r (lit ''error'') = Some (JStr (lit ''Memory limit exceeded (container killed)''))
        then Some MemoryLimitExceeded
      else if field r (lit ''error'') = Some (JStr (lit '''')) then Some Success
      else None)"

text \<open>
  The staging calls (\<open>os.makedirs\<close>, \<open>open\<close>, \<open>f.write\<close>) all return: no exception
  aborts the request before the sandbox is launched.
\<close>

definition staging_ok :: "env \<Rightarrow> bool" where
  "staging_ok e =
     (makedirs_result e = Returned () \<and> open_result e = Returned ()
      \<and> write_result e = Returned ())"

text \<open>The validations of lines 19-22 pass: \<open>code\<close> is a \<open>str\<close> of at most 5000 code points.\<close>

fun accepted :: "exn + json \<Rightarrow> bool" where
  "accepted (Inr (JStr s)) = (length s \<le> 5000)"
| "accepted _ = False"

text \<open>
  The value of \<open>code\<close> fails a validation of lines 19-22: it is not a \<open>str\<close>, or it has
  more than 5000 code points.
\<close>

fun invalid_code :: "json \<Rightarrow> bool" where
  "invalid_code (JStr s) = (5000 < length s)"
| "invalid_code _ = True"

text \<open>
  The request reaches the launch of the sandbox: the validations pass and the staging
  calls return.
\<close>

definition reaches_execution :: "json \<Rightarrow> env \<Rightarrow> bool" where
  "reaches_execution parsed e = (accepted (request_code parsed) \<and> staging_ok e)"

text \<open>
  Reading a \<open>docker\<close> command line: the argument that follows a flag
  (\<open>--network none\<close>), and the value joined to a flag by \<open>=\<close> (code point 61, as in
  \<open>--memory=128m\<close>).
\<close>

fun flag_arg :: "pystr \<Rightarrow> pystr list \<Rightarrow> pystr option" where
  "flag_arg f (a # b # rest) = (if a = f then Some b else flag_arg f (b # rest))"
| "flag_arg f _ = None"

fun flag_value :: "pystr \<Rightarrow> pystr list \<Rightarrow> pystr option" where
  "flag_value f [] = None"
| "flag_value f (a # rest) =
     (if startswith a (f @ [61]) then Some (drop (length f + 1) a) else flag_value f rest)"

text \<open>Kinds of side effects.\<close>

fun is_subprocess :: "effect \<Rightarrow> bool" where
  "is_subprocess (Subprocess cmd t) = True"
| "is_subprocess _ = False"

fun is_launch :: "effect \<Rightarrow> bool" where
  "is_launch (Subprocess cmd t) = (take 2 cmd = [lit ''docker'', lit ''run''])"
| "is_launch _ = False"

fun is_removal :: "effect \<Rightarrow> bool" where
  "is_removal (Subprocess cmd t) = (take 2 cmd = [lit ''docker'', lit ''rm''])"
| "is_removal _ = False"


section \<open>Concrete requests and environments\<close>

text \<open>
  An environment in which staging succeeds, the token is \<open>3f2a9c04d1e8\<close>, the working
  directory is \<open>/srv/app\<close>, the launch has the outcome \<open>r\<close> and \<open>docker rm\<close> raises.
\<close>

definition env0 :: "completed outcome \<Rightarrow> env" where
  "env0 r =
     \<lparr>makedirs_result = Returned (), uuid4_hex = lit ''3f2a9c04d1e84b7a9c0de5f6a7b8c9d0'',
      open_result = Returned (), write_result = Returned (), getcwd = lit ''/srv/app'',
      run_result = r, rm_result = Raised OSError\<rparr>"

text \<open>A second environment, with another token and a \<open>docker rm\<close> that returns.\<close>

definition env1 :: "completed outcome \<Rightarrow> env" where
  "env1 r =
     \<lparr>makedirs_result = Returned (), uuid4_hex = lit ''b7e1c2d3a4f5060718293a4b5c6d7e8f'',
      open_result = Returned (), write_result = Returned (), getcwd = lit ''/home/app'',
      run_result = r, rm_result = Returned \<lparr>returncode = 1, stdout = [], stderr = []\<rparr>\<rparr>"

text \<open>Request bodies: a valid one, and bodies with a wrong, long or missing \<open>code\<close>.\<close>

definition req0 :: json where
  "req0 = JObj [(lit ''code'', JStr (lit ''print(1)''))]"

definition req_number :: json where
  "req_number = JObj [(lit ''code'', JNum 5)]"

definition req_long :: json where
  "req_long = JObj [(lit ''code'', JStr (replicate 5001 97))]"



text \<open>Completed runs: \<open>stdout\<close> ends with a line feed, as \<open>print\<close> writes it.\<close>

definition proc_hello :: completed where
  "proc_hello = \<lparr>returncode = 0, stdout = lit ''hello'' @ [10], stderr = []\<rparr>"

definition proc_killed_zero :: completed where
  "proc_killed_zero = \<lparr>returncode = 0, stdout = lit ''hi'' @ [10], stderr = lit ''Killed''\<rparr>"

definition proc_oom :: completed where
  "proc_oom = \<lparr>returncode = 1, stdout = lit ''start'' @ [10],
     stderr = lit ''Traceback: MemoryError'' @ [10]\<rparr>"

definition proc_fail :: completed where
  "proc_fail = \<lparr>returncode = 1, stdout = lit ''start'' @ [10],
     stderr = lit ''ZeroDivisionError: division by zero'' @ [10]\<rparr>"

text \<open>A failing run whose output has whitespace at both ends of stderr.\<close>

definition proc_padded :: completed where
  "proc_padded = \<lparr>returncode = 2, stdout = lit ''out'' @ [10, 10],
     stderr = [32, 10] @ lit ''boom: bad  input'' @ [9, 10]\<rparr>"

section \<open>Basic facts\<close>

lemma lit_eq_iff [simp]: "lit a = lit b \<longleftrightarrow> a = b"
  by (simp add: lit_def inj_map_eq_map inj_of_char)

lemma lit_Nil [simp]: "lit [] = []"
  by (simp add: lit_def)

lemma lit_eq_Nil [simp]: "lit a = [] \<longleftrightarrow> a = []"
  by (simp add: lit_def)

lemma Nil_eq_lit [simp]: "[] = lit a \<longleftrightarrow> a = []"
  by (auto simp: lit_def)

lemma str_or_Nil [simp]: "str_or a [] = a"
  by (simp add: str_or_def)

lemma accepted_iff: "accepted r \<longleftrightarrow> (\<exists>s. r = Inr (JStr s) \<and> length s \<le> 5000)"
  by (cases r rule: accepted.cases) auto

lemma run_code_validated:
  assumes "request_code parsed = Inr (JStr code)" and "length code \<le> 5000"
  shows "run_code parsed e = stage_and_execute e code"
  using assms by (simp add: run_code_def)

lemma stage_and_execute_ok:
  assumes "staging_ok e"
  shows "stage_and_execute e code =
     ([MakeDirs (lit ''tmp''), OpenWrite (artifact_path (new_file_id e)),
       FileWrite (artifact_path (new_file_id e)) code] @ fst (execute e (new_file_id e)),
      snd (execute e (new_file_id e)))"
  using assms by (simp add: stage_and_execute_def staging_ok_def Let_def)

lemma run_code_reaches:
  assumes "reaches_execution parsed e"
  shows "\<exists>code. run_code parsed e =
     ([MakeDirs (lit ''tmp''), OpenWrite (artifact_path (new_file_id e)),
       FileWrite (artifact_path (new_file_id e)) code] @ fst (execute e (new_file_id e)),
      snd (execute e (new_file_id e)))"
  using assms
  by (auto simp: reaches_execution_def accepted_iff run_code_validated stage_and_execute_ok)

lemma execute_completed:
  "run_result e = Returned proc \<Longrightarrow>
   execute e fid = ([Subprocess (docker_cmd (getcwd e) fid) 10], Inr (completed_response proc))"
  by (simp add: execute_def)

lemma execute_timeout:
  "run_result e = Raised TimeoutExpired \<Longrightarrow>
   execute e fid =
     ([Subprocess (docker_cmd (getcwd e) fid) 10, Subprocess (rm_cmd (container_name fid)) 5],
      Inr timeout_response)"
  by (simp add: execute_def split: outcome.splits)

lemma snd_run_code_completed:
  assumes "reaches_execution parsed e" and "run_result e = Returned proc"
  shows "snd (run_code parsed e) = Inr (completed_response proc)"
  using run_code_reaches[OF assms(1)] execute_completed[OF assms(2)] by auto

lemma completed_response_zero:
  "returncode proc = 0 \<Longrightarrow>
   completed_response proc =
     (JObj [(lit ''output'', JStr (rstrip_nl (stdout proc))), (lit ''error'', JStr [])], 200)"
  by (simp add: completed_response_def)

lemma completed_response_oom:
  "returncode proc \<noteq> 0 \<Longrightarrow> oom_detected (returncode proc) (stderr proc) \<Longrightarrow>
   completed_response proc =
     (JObj [(lit ''output'', JStr (rstrip_nl (stdout proc))),
            (lit ''error'', JStr (lit ''Memory limit exceeded (container killed)''))], 200)"
  by (simp add: completed_response_def)

lemma completed_response_other:
  "returncode proc \<noteq> 0 \<Longrightarrow> \<not> oom_detected (returncode proc) (stderr proc) \<Longrightarrow>
   completed_response proc =
     (JObj [(lit ''output'', JStr (rstrip_nl (stdout proc))),
            (lit ''error'', JStr (strip (stderr proc))),
            (lit ''exit_code'', JNum (returncode proc))], 200)"
  by (simp add: completed_response_def)

lemma classification_success:
  "classification_of (JObj [(lit ''output'', JStr out), (lit ''error'', JStr [])], 200) = Some Success"
  by (simp add: classification_of_def)

lemma classification_oom:
  "classification_of (JObj [(lit ''output'', JStr out),
       (lit ''error'', JStr (lit ''Memory limit exceeded (container killed)''))], 200)
   = Some MemoryLimitExceeded"
  by (simp add: classification_of_def)

lemma classification_runtime:
  "classification_of (JObj [(lit ''output'', JStr out), (lit ''error'', JStr err),
       (lit ''exit_code'', JNum rc)], 200) = Some RuntimeError"
  by (simp add: classification_of_def)

lemma classification_timeout: "classification_of timeout_response = Some Timeout"
  by (simp add: classification_of_def timeout_response_def)

lemma trace_cases:
  "fst (run_code parsed e) = [] \<or>
   (\<not> reaches_execution parsed e \<and> (\<forall>x\<in>set (fst (run_code parsed e)). \<not> is_subprocess x)) \<or>
   reaches_execution parsed e"
  by (auto simp: run_code_def stage_and_execute_def reaches_execution_def staging_ok_def Let_def
           split: sum.splits json.splits outcome.splits if_splits)

lemma fst_execute:
  "fst (execute e fid) =
     (if run_result e = Raised TimeoutExpired
      then [Subprocess (docker_cmd (getcwd e) fid) 10, Subprocess (rm_cmd (container_name fid)) 5]
      else [Subprocess (docker_cmd (getcwd e) fid) 10])"
  by (cases "run_result e") (simp_all add: execute_def)

lemma launch_in_trace:
  assumes "x \<in> set (fst (run_code parsed e))" and "is_launch x"
  shows "reaches_execution parsed e \<and> x = Subprocess (docker_cmd (getcwd e) (new_file_id e)) 10"
proof -
  have sub: "is_subprocess x" using assms(2) by (cases x) auto
  with assms(1) trace_cases[of parsed e] have r: "reaches_execution parsed e"
    by auto
  from run_code_reaches[OF r] obtain code where
    rc: "run_code parsed e =
     ([MakeDirs (lit ''tmp''), OpenWrite (artifact_path (new_file_id e)),
       FileWrite (artifact_path (new_file_id e)) code] @ fst (execute e (new_file_id e)),
      snd (execute e (new_file_id e)))" by blast
  have "x \<in> set (fst (execute e (new_file_id e)))"
    using assms(1) sub unfolding rc by auto
  then have "x = Subprocess (docker_cmd (getcwd e) (new_file_id e)) 10"
    using assms(2)
    by (auto simp: fst_execute rm_cmd_def split: if_splits)
  with r show ?thesis by simp
qed

lemma container_name_neq [simp]:
  "container_name fid \<noteq> lit ''--network''" "container_name fid \<noteq> lit ''-v''"
  "container_name fid \<noteq> lit ''--name''"
  by (simp_all add: container_name_def lit_def)

lemma container_name_not_flag [simp]:
  "\<not> startswith (container_name fid) (lit ''--'' @ r)"
  by (simp add: container_name_def lit_def)

lemma reaches_req0: "reaches_execution req0 (env0 r)"
  by (simp add: reaches_execution_def request_code_def req0_def staging_ok_def env0_def lit_def)

lemma env0_sel [simp]:
  "run_result (env0 r) = r" "getcwd (env0 r) = lit ''/srv/app''"
  "new_file_id (env0 r) = lit ''3f2a9c04d1e8''" "staging_ok (env0 r)"
  by (simp_all add: env0_def new_file_id_def lit_def staging_ok_def)

lemma request_code_req0: "request_code req0 = Inr (JStr (lit ''print(1)''))"
  by (simp add: request_code_def req0_def)

lemma run_code_req0:
  "run_code req0 (env0 r) =
     ([MakeDirs (lit ''tmp''), OpenWrite (artifact_path (lit ''3f2a9c04d1e8'')),
       FileWrite (artifact_path (lit ''3f2a9c04d1e8'')) (lit ''print(1)'')]
        @ fst (execute (env0 r) (lit ''3f2a9c04d1e8'')),
      snd (execute (env0 r) (lit ''3f2a9c04d1e8'')))"
proof -
  have "length (lit ''print(1)'') \<le> 5000" by (simp add: lit_def)
  from run_code_validated[OF request_code_req0 this, of "env0 r"]
  show ?thesis by (simp add: stage_and_execute_ok)
qed

lemma execute_rm_result [simp]: "execute (e\<lparr>rm_result := r\<rparr>) fid = execute e fid"
  by (simp add: execute_def split: outcome.splits)

lemma stage_and_execute_rm_result [simp]:
  "stage_and_execute (e\<lparr>rm_result := r\<rparr>) code = stage_and_execute e code"
  by (simp add: stage_and_execute_def new_file_id_def Let_def split: outcome.splits)

lemma run_code_rm_result: "run_code parsed (e\<lparr>rm_result := r\<rparr>) = run_code parsed e"
  by (simp add: run_code_def split: sum.splits json.splits)

lemma snd_completed_response [simp]: "snd (completed_response proc) = 200"
  by (simp add: completed_response_def Let_def)

lemma completed_response_classified:
  "classification_of (completed_response proc) =
     Some (if returncode proc = 0 then Success
           else if oom_detected (returncode proc) (stderr proc) then MemoryLimitExceeded
           else RuntimeError)"
  by (simp add: completed_response_zero completed_response_oom completed_response_other
        classification_success classification_oom classification_runtime)







lemma lit_append: "lit a @ lit b = lit (a @ b)"
  by (simp add: lit_def)

lemma docker_cmd_explicit:
  "docker_cmd (getcwd e) (new_file_id e) =
     [lit ''docker'', lit ''run'', lit ''--rm'',
      lit ''--name'', lit ''runpy-'' @ take 12 (uuid4_hex e),
      lit ''--network'', lit ''none'',
      lit ''--memory=128m'', lit ''--memory-swap=128m'',
      lit ''--pids-limit=64'', lit ''--cpus=1'',
      lit ''-v'', getcwd e @ lit ''/tmp:/scripts:ro'',
      lit ''python:3.11-slim'',
      lit ''python'', lit ''/scripts/'' @ take 12 (uuid4_hex e) @ lit ''.py'']"
  by (simp add: docker_cmd_def container_name_def new_file_id_def)

lemma rm_cmd_explicit:
  "rm_cmd (container_name (new_file_id e)) =
     [lit ''docker'', lit ''rm'', lit ''-f'', lit ''runpy-'' @ take 12 (uuid4_hex e)]"
  by (simp add: rm_cmd_def container_name_def new_file_id_def)

lemma runpy_neq [simp]:
  "lit ''runpy-'' @ x \<noteq> lit ''--network''" "lit ''runpy-'' @ x \<noteq> lit ''-v''"
  "lit ''runpy-'' @ x \<noteq> lit ''--name''"
  "\<not> startswith (lit ''runpy-'' @ x) (lit ''--'' @ r)"
  by (simp_all add: lit_def)

lemma explicit_cmd_reads:
  fixes cwd name script
  defines "cmd \<equiv> [lit ''docker'', lit ''run'', lit ''--rm'',
      lit ''--name'', lit ''runpy-'' @ name,
      lit ''--network'', lit ''none'',
      lit ''--memory=128m'', lit ''--memory-swap=128m'',
      lit ''--pids-limit=64'', lit ''--cpus=1'',
      lit ''-v'', cwd @ lit ''/tmp:/scripts:ro'',
      lit ''python:3.11-slim'', lit ''python'', script]"
  shows "flag_arg (lit ''--name'') cmd = Some (lit ''runpy-'' @ name)"
    and "flag_arg (lit ''--network'') cmd = Some (lit ''none'')"
    and "flag_value (lit ''--memory'') cmd = Some (lit ''128m'')"
    and "flag_value (lit ''--memory-swap'') cmd = Some (lit ''128m'')"
    and "flag_value (lit ''--pids-limit'') cmd = Some (lit ''64'')"
    and "flag_value (lit ''--cpus'') cmd = Some (lit ''1'')"
    and "flag_arg (lit ''-v'') cmd = Some (cwd @ lit ''/tmp:/scripts:ro'')"
  unfolding cmd_def
        apply simp
       apply simp
      apply (simp add: lit_def)
     apply (simp add: lit_def)
    apply (simp add: lit_def)
   apply (simp add: lit_def)
  apply simp
  done

lemma trace_timeout:
  assumes "reaches_execution parsed e" and "run_result e = Raised TimeoutExpired"
  shows "\<exists>code. fst (run_code parsed e) =
     [MakeDirs (lit ''tmp''), OpenWrite (artifact_path (new_file_id e)),
      FileWrite (artifact_path (new_file_id e)) code,
      Subprocess (docker_cmd (getcwd e) (new_file_id e)) 10,
      Subprocess (rm_cmd (container_name (new_file_id e))) 5]"
  using run_code_reaches[OF assms(1)] execute_timeout[OF assms(2), of "new_file_id e"]
  by auto

lemma launch_issued:
  assumes "reaches_execution parsed e"
  shows "Subprocess (docker_cmd (getcwd e) (new_file_id e)) 10 \<in> set (fst (run_code parsed e))"
  using run_code_reaches[OF assms] by (auto simp: fst_execute)

lemma launch_position:
  assumes "reaches_execution parsed e"
  shows "\<exists>pre post. fst (run_code parsed e)
            = pre @ Subprocess (docker_cmd (getcwd e) (new_file_id e)) 10 # post
          \<and> (\<forall>x\<in>set pre. \<not> is_subprocess x)"
proof -
  let ?fid = "new_file_id e"
  from run_code_reaches[OF assms] obtain code where
    rc: "run_code parsed e =
     ([MakeDirs (lit ''tmp''), OpenWrite (artifact_path ?fid),
       FileWrite (artifact_path ?fid) code] @ fst (execute e ?fid),
      snd (execute e ?fid))" by blast
  let ?pre = "[MakeDirs (lit ''tmp''), OpenWrite (artifact_path ?fid),
       FileWrite (artifact_path ?fid) code]"
  have "fst (run_code parsed e)
          = ?pre @ Subprocess (docker_cmd (getcwd e) ?fid) 10 # tl (fst (execute e ?fid))"
    unfolding rc by (simp add: fst_execute)
  moreover have "\<forall>x\<in>set ?pre. \<not> is_subprocess x" by simp
  ultimately show ?thesis by blast
qed

lemma env1_reaches: "reaches_execution req0 (env1 r)"
  by (simp add: reaches_execution_def request_code_def req0_def staging_ok_def env1_def lit_def)

lemma completed_response_proc_padded:
  "completed_response proc_padded =
     (JObj [(lit ''output'', JStr (lit ''out'')),
            (lit ''error'', JStr (lit ''boom: bad  input'')),
            (lit ''exit_code'', JNum 2)], 200)"
  by (simp add: completed_response_def proc_padded_def oom_detected_def has_oom_marker_def
        rstrip_nl_def strip_def isspace_def lit_def)

subsection \<open>What the string methods compute\<close>

lemma rev_dropWhile_split:
  "xs = rev (dropWhile P (rev xs)) @ rev (takeWhile P (rev xs))"
  by (metis rev_append rev_rev_ident takeWhile_dropWhile_id)

lemma strip_decompose:
  "\<exists>a b. s = a @ strip s @ b \<and> (\<forall>c\<in>set a. isspace c) \<and> (\<forall>c\<in>set b. isspace c)"
proof -
  let ?m = "dropWhile isspace s"
  let ?a = "takeWhile isspace s"
  let ?b = "rev (takeWhile isspace (rev ?m))"
  have m: "?m = strip s @ ?b"
    unfolding strip_def by (rule rev_dropWhile_split)
  have "s = ?a @ ?m" by simp
  with m have "s = ?a @ strip s @ ?b" by simp
  moreover have "\<forall>c\<in>set ?a. isspace c" by (auto dest: set_takeWhileD)
  moreover have "\<forall>c\<in>set ?b. isspace c" by (auto dest: set_takeWhileD)
  ultimately show ?thesis by blast
qed

lemma strip_ends:
  assumes "strip s \<noteq> []"
  shows "\<not> isspace (hd (strip s)) \<and> \<not> isspace (last (strip s))"
proof -
  let ?m = "dropWhile isspace s"
  have l: "\<not> isspace (last (strip s))"
    using assms unfolding strip_def
    by (metis (mono_tags, lifting) hd_dropWhile last_rev rev_is_Nil_conv)
  have m: "?m = strip s @ rev (takeWhile isspace (rev ?m))"
    unfolding strip_def by (rule rev_dropWhile_split)
  have "?m \<noteq> []"
  proof
    assume e: "?m = []"
    have "strip s = rev (dropWhile isspace (rev ?m))" by (simp only: strip_def)
    also have "\<dots> = rev (dropWhile isspace (rev []))" by (simp only: e)
    finally have "strip s = []" by simp
    with assms show False by simp
  qed
  then have "\<not> isspace (hd ?m)" by (rule hd_dropWhile)
  moreover from m assms have "hd ?m = hd (strip s)" by (metis hd_append2)
  ultimately show ?thesis using l by simp
qed

lemma rstrip_nl_decompose: "\<exists>n. s = rstrip_nl s @ replicate n 10"
proof -
  have "rev s = takeWhile (\<lambda>c. c = 10) (rev s) @ dropWhile (\<lambda>c. c = 10) (rev s)" by simp
  then have "s = rev (dropWhile (\<lambda>c. c = 10) (rev s)) @ rev (takeWhile (\<lambda>c. c = 10) (rev s))"
    by (metis rev_append rev_rev_ident)
  moreover have "takeWhile (\<lambda>c. c = 10) (rev s)
      = replicate (length (takeWhile (\<lambda>c. c = 10) (rev s))) (10::nat)"
    by (rule replicate_length_same[symmetric]) (auto dest: set_takeWhileD)
  ultimately show ?thesis
    by (metis rstrip_nl_def rev_replicate)
qed

lemma rstrip_nl_last: "rstrip_nl s \<noteq> [] \<Longrightarrow> last (rstrip_nl s) \<noteq> 10"
  unfolding rstrip_nl_def
  by (metis (mono_tags, lifting) hd_dropWhile last_rev rev_is_Nil_conv)

lemma startswith_iff: "startswith s p \<longleftrightarrow> (\<exists>q. s = p @ q)"
  by (induction s p rule: startswith.induct) auto

lemma contains_iff: "contains sub s \<longleftrightarrow> (\<exists>p q. s = p @ sub @ q)"
proof (induction s)
  case Nil
  then show ?case by auto
next
  case (Cons c cs)
  show ?case
  proof
    assume "contains sub (c # cs)"
    then consider "startswith (c # cs) sub" | "contains sub cs" by auto
    then show "\<exists>p q. c # cs = p @ sub @ q"
    proof cases
      case 1
      then obtain q where "c # cs = sub @ q" by (auto simp: startswith_iff)
      then have "c # cs = [] @ sub @ q" by simp
      then show ?thesis by blast
    next
      case 2
      with Cons.IH obtain p q where "cs = p @ sub @ q" by blast
      then have "c # cs = (c # p) @ sub @ q" by simp
      then show ?thesis by blast
    qed
  next
    assume "\<exists>p q. c # cs = p @ sub @ q"
    then obtain p q where pq: "c # cs = p @ sub @ q" by blast
    show "contains sub (c # cs)"
    proof (cases p)
      case Nil
      with pq have "startswith (c # cs) sub" by (auto simp: startswith_iff)
      then show ?thesis by simp
    next
      case (Cons a p')
      with pq have "cs = p' @ sub @ q" by simp
      with Cons.IH have "contains sub cs" by blast
      then show ?thesis by simp
    qed
  qed
qed

section \<open>The launch command\<close>

text \<open>
  Claim C1. A request that reaches execution issues the command
  \<open>docker run --rm --name runpy-<file_id> --network none --memory=128m --memory-swap=128m
  --pids-limit=64 --cpus=1 -v <cwd>/tmp:/scripts:ro python:3.11-slim python
  /scripts/<file_id>.py\<close> with a timeout of 10 seconds, and every \<open>docker run\<close> command in
  the trace of a request is exactly this list of arguments: nothing is added to it or
  left out. So the options that isolate the container (no network, the memory limit, a
  swap limit equal to the memory limit, the process limit, the CPU limit, the read-only
  bind of the staging directory) all stand before the image, and no other option follows
  them. No process is started before this command.
\<close>

theorem launch_configures_sandbox:
  "(reaches_execution parsed e \<longrightarrow>
      Subprocess
        [lit ''docker'', lit ''run'', lit ''--rm'',
         lit ''--name'', lit ''runpy-'' @ take 12 (uuid4_hex e),
         lit ''--network'', lit ''none'',
         lit ''--memory=128m'', lit ''--memory-swap=128m'',
         lit ''--pids-limit=64'', lit ''--cpus=1'',
         lit ''-v'', getcwd e @ lit ''/tmp:/scripts:ro'',
         lit ''python:3.11-slim'',
         lit ''python'', lit ''/scripts/'' @ take 12 (uuid4_hex e) @ lit ''.py''] 10
       \<in> set (fst (run_code parsed e)))
   \<and> (\<forall>cmd t. Subprocess cmd t \<in> set (fst (run_code parsed e))
          \<and> take 2 cmd = [lit ''docker'', lit ''run''] \<longrightarrow>
        cmd = [lit ''docker'', lit ''run'', lit ''--rm'',
               lit ''--name'', lit ''runpy-'' @ take 12 (uuid4_hex e),
               lit ''--network'', lit ''none'',
               lit ''--memory=128m'', lit ''--memory-swap=128m'',
               lit ''--pids-limit=64'', lit ''--cpus=1'',
               lit ''-v'', getcwd e @ lit ''/tmp:/scripts:ro'',
               lit ''python:3.11-slim'',
               lit ''python'', lit ''/scripts/'' @ take 12 (uuid4_hex e) @ lit ''.py'']
        \<and> t = 10
        \<and> flag_arg (lit ''--network'') cmd = Some (lit ''none'')
        \<and> flag_value (lit ''--memory'') cmd = Some (lit ''128m'')
        \<and> flag_value (lit ''--memory-swap'') cmd = flag_value (lit ''--memory'') cmd
        \<and> flag_value (lit ''--pids-limit'') cmd = Some (lit ''64'')
        \<and> flag_value (lit ''--cpus'') cmd = Some (lit ''1'')
        \<and> flag_arg (lit ''-v'') cmd = Some (getcwd e @ lit ''/tmp:/scripts:ro'')
        \<and> reaches_execution parsed e
        \<and> (\<exists>pre post. fst (run_code parsed e) = pre @ Subprocess cmd t # post
              \<and> (\<forall>x\<in>set pre. \<not> is_subprocess x)))"
proof (intro conjI impI allI)
  assume "reaches_execution parsed e"
  from launch_issued[OF this] show "Subprocess
        [lit ''docker'', lit ''run'', lit ''--rm'',
         lit ''--name'', lit ''runpy-'' @ take 12 (uuid4_hex e),
         lit ''--network'', lit ''none'',
         lit ''--memory=128m'', lit ''--memory-swap=128m'',
         lit ''--pids-limit=64'', lit ''--cpus=1'',
         lit ''-v'', getcwd e @ lit ''/tmp:/scripts:ro'',
         lit ''python:3.11-slim'',
         lit ''python'', lit ''/scripts/'' @ take 12 (uuid4_hex e) @ lit ''.py''] 10
       \<in> set (fst (run_code parsed e))"
    by (simp only: docker_cmd_explicit)
next
  fix cmd t
  assume a: "Subprocess cmd t \<in> set (fst (run_code parsed e))
          \<and> take 2 cmd = [lit ''docker'', lit ''run'']"
  then have m: "Subprocess cmd t \<in> set (fst (run_code parsed e))"
    and launch: "is_launch (Subprocess cmd t)" by simp_all
  from launch_in_trace[OF m launch]
  have r: "reaches_execution parsed e"
    and x: "Subprocess cmd t = Subprocess (docker_cmd (getcwd e) (new_file_id e)) 10"
    by simp_all
  from x have c: "cmd = docker_cmd (getcwd e) (new_file_id e)" and t: "t = 10" by simp_all
  show "cmd = [lit ''docker'', lit ''run'', lit ''--rm'',
               lit ''--name'', lit ''runpy-'' @ take 12 (uuid4_hex e),
               lit ''--network'', lit ''none'',
               lit ''--memory=128m'', lit ''--memory-swap=128m'',
               lit ''--pids-limit=64'', lit ''--cpus=1'',
               lit ''-v'', getcwd e @ lit ''/tmp:/scripts:ro'',
               lit ''python:3.11-slim'',
               lit ''python'', lit ''/scripts/'' @ take 12 (uuid4_hex e) @ lit ''.py'']"
    unfolding c by (rule docker_cmd_explicit)
  show "t = 10" by (rule t)
  show "flag_arg (lit ''--network'') cmd = Some (lit ''none'')"
    unfolding c docker_cmd_explicit by (rule explicit_cmd_reads)
  show "flag_value (lit ''--memory'') cmd = Some (lit ''128m'')"
    unfolding c docker_cmd_explicit by (rule explicit_cmd_reads)
  show "flag_value (lit ''--memory-swap'') cmd = flag_value (lit ''--memory'') cmd"
    unfolding c docker_cmd_explicit by (simp only: explicit_cmd_reads)
  show "flag_value (lit ''--pids-limit'') cmd = Some (lit ''64'')"
    unfolding c docker_cmd_explicit by (rule explicit_cmd_reads)
  show "flag_value (lit ''--cpus'') cmd = Some (lit ''1'')"
    unfolding c docker_cmd_explicit by (rule explicit_cmd_reads)
  show "flag_arg (lit ''-v'') cmd = Some (getcwd e @ lit ''/tmp:/scripts:ro'')"
    unfolding c docker_cmd_explicit by (rule explicit_cmd_reads)
  show "reaches_execution parsed e" by (rule r)
  show "\<exists>pre post. fst (run_code parsed e) = pre @ Subprocess cmd t # post
              \<and> (\<forall>x\<in>set pre. \<not> is_subprocess x)"
    unfolding c t by (rule launch_position[OF r])
qed

theorem launch_configures_sandbox_witness:
  "reaches_execution req0 (env0 (Returned proc_hello))
   \<and> Subprocess
        [lit ''docker'', lit ''run'', lit ''--rm'',
         lit ''--name'', lit ''runpy-3f2a9c04d1e8'',
         lit ''--network'', lit ''none'',
         lit ''--memory=128m'', lit ''--memory-swap=128m'',
         lit ''--pids-limit=64'', lit ''--cpus=1'',
         lit ''-v'', lit ''/srv/app/tmp:/scripts:ro'',
         lit ''python:3.11-slim'',
         lit ''python'', lit ''/scripts/3f2a9c04d1e8.py''] 10
       \<in> set (fst (run_code req0 (env0 (Returned proc_hello))))
   \<and> (\<exists>pre post. fst (run_code req0 (env0 (Returned proc_hello)))
         = pre @ Subprocess
            [lit ''docker'', lit ''run'', lit ''--rm'',
             lit ''--name'', lit ''runpy-3f2a9c04d1e8'',
             lit ''--network'', lit ''none'',
             lit ''--memory=128m'', lit ''--memory-swap=128m'',
             lit ''--pids-limit=64'', lit ''--cpus=1'',
             lit ''-v'', lit ''/srv/app/tmp:/scripts:ro'',
             lit ''python:3.11-slim'',
             lit ''python'', lit ''/scripts/3f2a9c04d1e8.py''] 10 # post
        \<and> (\<forall>x\<in>set pre. \<not> is_subprocess x))"
proof -
  let ?e = "env0 (Returned proc_hello)"
  let ?cmd = "[lit ''docker'', lit ''run'', lit ''--rm'',
         lit ''--name'', lit ''runpy-3f2a9c04d1e8'',
         lit ''--network'', lit ''none'',
         lit ''--memory=128m'', lit ''--memory-swap=128m'',
         lit ''--pids-limit=64'', lit ''--cpus=1'',
         lit ''-v'', lit ''/srv/app/tmp:/scripts:ro'',
         lit ''python:3.11-slim'',
         lit ''python'', lit ''/scripts/3f2a9c04d1e8.py'']"
  have r: "reaches_execution req0 ?e" by (rule reaches_req0)
  have n: "lit ''runpy-'' @ take 12 (uuid4_hex ?e) = lit ''runpy-3f2a9c04d1e8''"
    by (simp add: env0_def lit_def)
  have s: "lit ''/scripts/'' @ take 12 (uuid4_hex ?e) @ lit ''.py'' = lit ''/scripts/3f2a9c04d1e8.py''"
    by (simp add: env0_def lit_def)
  have v: "getcwd ?e @ lit ''/tmp:/scripts:ro'' = lit ''/srv/app/tmp:/scripts:ro''"
    by (simp add: lit_def)
  note T = launch_configures_sandbox[of req0 ?e, unfolded n s v]
  from T r have m: "Subprocess ?cmd 10 \<in> set (fst (run_code req0 ?e))" by blast
  have t2: "take 2 ?cmd = [lit ''docker'', lit ''run'']" by simp
  from T m t2 have "\<exists>pre post. fst (run_code req0 ?e) = pre @ Subprocess ?cmd 10 # post
        \<and> (\<forall>x\<in>set pre. \<not> is_subprocess x)" by blast
  with r m show ?thesis by blast
qed

section \<open>Deadline expiry\<close>

text \<open>
  Claim C2. When \<open>subprocess.run\<close> of the launch raises \<open>TimeoutExpired\<close>, the handler
  returns \<open>{"output": "", "error": "Execution timed out after 10 seconds"}\<close> with status
  200 and without \<open>exit_code\<close>. The trace ends with the launch followed by exactly one
  removal, \<open>docker rm -f runpy-<file_id>\<close>, whose target is the name that the launch
  passed to \<open>--name\<close>; no other process is started. Whatever the removal call does
  (return or raise) changes neither the trace nor the result.
\<close>

theorem timeout_forces_one_removal:
  assumes "reaches_execution parsed e" and "run_result e = Raised TimeoutExpired"
  shows "snd (run_code parsed e)
           = Inr (JObj [(lit ''output'', JStr (lit '''')),
                        (lit ''error'', JStr (lit ''Execution timed out after 10 seconds''))], 200)
     \<and> (\<forall>r. snd (run_code parsed e) = Inr r \<longrightarrow>
            classification_of r = Some Timeout \<and> field r (lit ''exit_code'') = None)
     \<and> filter is_removal (fst (run_code parsed e))
           = [Subprocess [lit ''docker'', lit ''rm'', lit ''-f'',
                          lit ''runpy-'' @ take 12 (uuid4_hex e)] 5]
     \<and> filter is_launch (fst (run_code parsed e))
           = [Subprocess
                [lit ''docker'', lit ''run'', lit ''--rm'',
                 lit ''--name'', lit ''runpy-'' @ take 12 (uuid4_hex e),
                 lit ''--network'', lit ''none'',
                 lit ''--memory=128m'', lit ''--memory-swap=128m'',
                 lit ''--pids-limit=64'', lit ''--cpus=1'',
                 lit ''-v'', getcwd e @ lit ''/tmp:/scripts:ro'',
                 lit ''python:3.11-slim'',
                 lit ''python'', lit ''/scripts/'' @ take 12 (uuid4_hex e) @ lit ''.py''] 10]
     \<and> (\<exists>pre launch target.
            fst (run_code parsed e)
              = pre @ [Subprocess launch 10,
                       Subprocess [lit ''docker'', lit ''rm'', lit ''-f'', target] 5]
            \<and> (\<forall>x\<in>set pre. \<not> is_subprocess x)
            \<and> flag_arg (lit ''--name'') launch = Some target
            \<and> target = lit ''runpy-'' @ take 12 (uuid4_hex e))
     \<and> (\<forall>r. run_code parsed (e\<lparr>rm_result := r\<rparr>) = run_code parsed e)"
proof -
  let ?fid = "new_file_id e"
  let ?launch = "[lit ''docker'', lit ''run'', lit ''--rm'',
                 lit ''--name'', lit ''runpy-'' @ take 12 (uuid4_hex e),
                 lit ''--network'', lit ''none'',
                 lit ''--memory=128m'', lit ''--memory-swap=128m'',
                 lit ''--pids-limit=64'', lit ''--cpus=1'',
                 lit ''-v'', getcwd e @ lit ''/tmp:/scripts:ro'',
                 lit ''python:3.11-slim'',
                 lit ''python'', lit ''/scripts/'' @ take 12 (uuid4_hex e) @ lit ''.py'']"
  let ?target = "lit ''runpy-'' @ take 12 (uuid4_hex e)"
  from trace_timeout[OF assms] obtain code where
    tr: "fst (run_code parsed e) =
     [MakeDirs (lit ''tmp''), OpenWrite (artifact_path ?fid), FileWrite (artifact_path ?fid) code,
      Subprocess ?launch 10, Subprocess [lit ''docker'', lit ''rm'', lit ''-f'', ?target] 5]"
    unfolding docker_cmd_explicit rm_cmd_explicit by blast
  from run_code_reaches[OF assms(1)]
  have "snd (run_code parsed e) = snd (execute e ?fid)" by auto
  then have res: "snd (run_code parsed e)
           = Inr (JObj [(lit ''output'', JStr (lit '''')),
                        (lit ''error'', JStr (lit ''Execution timed out after 10 seconds''))], 200)"
    by (simp add: execute_timeout[OF assms(2)] timeout_response_def)
  have cls: "\<forall>r. snd (run_code parsed e) = Inr r \<longrightarrow>
            classification_of r = Some Timeout \<and> field r (lit ''exit_code'') = None"
    unfolding res by (simp add: classification_of_def)
  have rm: "filter is_removal (fst (run_code parsed e))
           = [Subprocess [lit ''docker'', lit ''rm'', lit ''-f'', ?target] 5]"
    unfolding tr by simp
  have la: "filter is_launch (fst (run_code parsed e)) = [Subprocess ?launch 10]"
    unfolding tr by simp
  have nm: "flag_arg (lit ''--name'') ?launch = Some ?target"
    by (rule explicit_cmd_reads)
  have pre: "\<forall>x\<in>set [MakeDirs (lit ''tmp''), OpenWrite (artifact_path ?fid),
                       FileWrite (artifact_path ?fid) code]. \<not> is_subprocess x" by simp
  have ex: "\<exists>pre launch target.
            fst (run_code parsed e)
              = pre @ [Subprocess launch 10,
                       Subprocess [lit ''docker'', lit ''rm'', lit ''-f'', target] 5]
            \<and> (\<forall>x\<in>set pre. \<not> is_subprocess x)
            \<and> flag_arg (lit ''--name'') launch = Some target
            \<and> target = ?target"
    apply (rule exI[of _ "[MakeDirs (lit ''tmp''), OpenWrite (artifact_path ?fid),
                       FileWrite (artifact_path ?fid) code]"])
    apply (rule exI[of _ ?launch], rule exI[of _ ?target])
    apply (intro conjI)
       apply (simp only: tr append.simps)
      apply (rule pre)
     apply (rule nm)
    apply (rule refl)
    done
  from res cls rm la ex run_code_rm_result show ?thesis by blast
qed

theorem timeout_forces_one_removal_witness:
  "reaches_execution req0 (env0 (Raised TimeoutExpired))
   \<and> run_result (env0 (Raised TimeoutExpired)) = Raised TimeoutExpired
   \<and> rm_result (env0 (Raised TimeoutExpired)) = Raised OSError
   \<and> snd (run_code req0 (env0 (Raised TimeoutExpired)))
           = Inr (JObj [(lit ''output'', JStr (lit '''')),
                        (lit ''error'', JStr (lit ''Execution timed out after 10 seconds''))], 200)
   \<and> filter is_removal (fst (run_code req0 (env0 (Raised TimeoutExpired))))
           = [Subprocess [lit ''docker'', lit ''rm'', lit ''-f'', lit ''runpy-3f2a9c04d1e8''] 5]
   \<and> reaches_execution req0 (env1 (Raised TimeoutExpired))
   \<and> run_result (env1 (Raised TimeoutExpired)) = Raised TimeoutExpired
   \<and> snd (run_code req0 (env1 (Raised TimeoutExpired)))
           = Inr (JObj [(lit ''output'', JStr (lit '''')),
                        (lit ''error'', JStr (lit ''Execution timed out after 10 seconds''))], 200)
   \<and> filter is_removal (fst (run_code req0 (env1 (Raised TimeoutExpired))))
           = [Subprocess [lit ''docker'', lit ''rm'', lit ''-f'', lit ''runpy-b7e1c2d3a4f5''] 5]"
proof -
  have h1: "reaches_execution req0 (env0 (Raised TimeoutExpired))" by (rule reaches_req0)
  have h2: "run_result (env0 (Raised TimeoutExpired)) = Raised TimeoutExpired" by simp
  have h3: "rm_result (env0 (Raised TimeoutExpired)) = Raised OSError" by (simp add: env0_def)
  have n0: "lit ''runpy-'' @ take 12 (uuid4_hex (env0 (Raised TimeoutExpired)))
              = lit ''runpy-3f2a9c04d1e8''"
    by (simp add: env0_def lit_def)
  have k1: "reaches_execution req0 (env1 (Raised TimeoutExpired))" by (rule env1_reaches)
  have k2: "run_result (env1 (Raised TimeoutExpired)) = Raised TimeoutExpired"
    by (simp add: env1_def)
  have n1: "lit ''runpy-'' @ take 12 (uuid4_hex (env1 (Raised TimeoutExpired)))
              = lit ''runpy-b7e1c2d3a4f5''"
    by (simp add: env1_def lit_def)
  note A = timeout_forces_one_removal[OF h1 h2, unfolded n0]
  note B = timeout_forces_one_removal[OF k1 k2, unfolded n1]
  from A B h1 h2 h3 k1 k2 show ?thesis by blast
qed

section \<open>Classification of a completed run\<close>

text \<open>
  Claim C3, as stated, fails for exit code 0: with \<open>stderr = "Killed"\<close> and exit code 0
  the test of line 69 returns the success response before the out-of-memory test of line
  73 is reached.
\<close>

theorem oom_counterexample_exit_zero:
  "reaches_execution req0 (env0 (Returned proc_killed_zero))
   \<and> run_result (env0 (Returned proc_killed_zero)) = Returned proc_killed_zero
   \<and> contains (lit ''Killed'') (stderr proc_killed_zero)
   \<and> snd (run_code req0 (env0 (Returned proc_killed_zero)))
        = Inr (JObj [(lit ''output'', JStr (lit ''hi'')), (lit ''error'', JStr (lit ''''))], 200)
   \<and> classification_of
        (JObj [(lit ''output'', JStr (lit ''hi'')), (lit ''error'', JStr (lit ''''))], 200)
        \<noteq> Some MemoryLimitExceeded"
proof -
  have "completed_response proc_killed_zero
        = (JObj [(lit ''output'', JStr (lit ''hi'')), (lit ''error'', JStr (lit ''''))], 200)"
    by (simp add: completed_response_def proc_killed_zero_def rstrip_nl_def lit_def)
  moreover have "contains (lit ''Killed'') (stderr proc_killed_zero)"
    by (simp add: proc_killed_zero_def lit_def)
  ultimately show ?thesis
    by (simp add: reaches_req0 run_code_req0 execute_completed classification_of_def)
qed

text \<open>
  Claim C3, amended. For a completed run with a non-zero exit code that is 137, or whose
  stderr contains \<open>Killed\<close>, \<open>Out of memory\<close> or \<open>MemoryError\<close>, the response is
  \<open>{"output": stdout.rstrip("\n"), "error": "Memory limit exceeded (container killed)"}\<close>
  with status 200: the error text does not depend on stderr, and there is no \<open>exit_code\<close>.
\<close>

theorem nonzero_oom_is_memory_limit_exceeded:
  assumes "reaches_execution parsed e" and "run_result e = Returned proc"
    and "returncode proc \<noteq> 0"
    and "returncode proc = 137 \<or> contains (lit ''Killed'') (stderr proc)
         \<or> contains (lit ''Out of memory'') (stderr proc)
         \<or> contains (lit ''MemoryError'') (stderr proc)"
  shows "snd (run_code parsed e)
           = Inr (JObj [(lit ''output'', JStr (rstrip_nl (stdout proc))),
                        (lit ''error'', JStr (lit ''Memory limit exceeded (container killed)''))],
                  200)
     \<and> (\<forall>r. snd (run_code parsed e) = Inr r \<longrightarrow>
            classification_of r = Some MemoryLimitExceeded \<and> field r (lit ''exit_code'') = None)"
proof -
  have oom: "oom_detected (returncode proc) (stderr proc)"
    using assms(4) by (simp add: oom_detected_def has_oom_marker_def)
  have res: "snd (run_code parsed e)
           = Inr (JObj [(lit ''output'', JStr (rstrip_nl (stdout proc))),
                        (lit ''error'', JStr (lit ''Memory limit exceeded (container killed)''))],
                  200)"
    using snd_run_code_completed[OF assms(1,2)] completed_response_oom[OF assms(3) oom]
    by simp
  show ?thesis unfolding res by (simp add: classification_of_def)
qed

theorem nonzero_oom_is_memory_limit_exceeded_witness:
  "reaches_execution req0 (env0 (Returned proc_oom))
   \<and> run_result (env0 (Returned proc_oom)) = Returned proc_oom
   \<and> returncode proc_oom \<noteq> 0
   \<and> contains (lit ''MemoryError'') (stderr proc_oom)
   \<and> snd (run_code req0 (env0 (Returned proc_oom)))
        = Inr (JObj [(lit ''output'', JStr (lit ''start'')),
                     (lit ''error'', JStr (lit ''Memory limit exceeded (container killed)''))],
               200)"
proof -
  have h1: "reaches_execution req0 (env0 (Returned proc_oom))" by (rule reaches_req0)
  have h2: "run_result (env0 (Returned proc_oom)) = Returned proc_oom" by simp
  have h3: "returncode proc_oom \<noteq> 0" by (simp add: proc_oom_def)
  have h4: "contains (lit ''MemoryError'') (stderr proc_oom)"
    by (simp add: proc_oom_def lit_def)
  have out: "rstrip_nl (stdout proc_oom) = lit ''start''"
    by (simp add: proc_oom_def rstrip_nl_def lit_def)
  from nonzero_oom_is_memory_limit_exceeded[OF h1 h2 h3] h4 h1 h2 h3 out show ?thesis
    by simp
qed

text \<open>
  Claim C4. For a completed run with a non-zero exit code whose response is not classified
  MemoryLimitExceeded, the response is
  \<open>{"output": stdout.rstrip("\n"), "error": stderr.strip(), "exit_code": rc}\<close> with status
  200: it is classified RuntimeError and \<open>exit_code\<close> is the exit code of the run. The
  error is the trimmed stderr: stderr is the error with whitespace only before and after
  it, and the error neither starts nor ends with whitespace. The output is stdout without
  its trailing line feeds.
\<close>

theorem nonzero_exit_is_runtime_error:
  assumes "reaches_execution parsed e" and "run_result e = Returned proc"
    and "returncode proc \<noteq> 0"
    and "snd (run_code parsed e) = Inr r"
    and "classification_of r \<noteq> Some MemoryLimitExceeded"
  shows "r = (JObj [(lit ''output'', JStr (rstrip_nl (stdout proc))),
                    (lit ''error'', JStr (strip (stderr proc))),
                    (lit ''exit_code'', JNum (returncode proc))], 200)
     \<and> classification_of r = Some RuntimeError
     \<and> field r (lit ''exit_code'') = Some (JNum (returncode proc))
     \<and> (\<exists>err a b. field r (lit ''error'') = Some (JStr err)
           \<and> stderr proc = a @ err @ b
           \<and> (\<forall>c\<in>set a. isspace c) \<and> (\<forall>c\<in>set b. isspace c)
           \<and> (err \<noteq> [] \<longrightarrow> \<not> isspace (hd err) \<and> \<not> isspace (last err)))
     \<and> (\<exists>out n. field r (lit ''output'') = Some (JStr out)
           \<and> stdout proc = out @ replicate n 10
           \<and> (out \<noteq> [] \<longrightarrow> last out \<noteq> 10))"
proof -
  have r: "r = completed_response proc"
    using snd_run_code_completed[OF assms(1,2)] assms(4) by simp
  have "\<not> oom_detected (returncode proc) (stderr proc)"
  proof
    assume "oom_detected (returncode proc) (stderr proc)"
    with assms(3) have "classification_of r = Some MemoryLimitExceeded"
      unfolding r by (simp add: completed_response_classified)
    with assms(5) show False by simp
  qed
  with assms(3) have eq: "r = (JObj [(lit ''output'', JStr (rstrip_nl (stdout proc))),
                    (lit ''error'', JStr (strip (stderr proc))),
                    (lit ''exit_code'', JNum (returncode proc))], 200)"
    unfolding r by (rule completed_response_other)
  have fe: "field r (lit ''error'') = Some (JStr (strip (stderr proc)))"
    unfolding eq by simp
  have fo: "field r (lit ''output'') = Some (JStr (rstrip_nl (stdout proc)))"
    unfolding eq by simp
  from strip_decompose[of "stderr proc"] obtain a b where
    ab: "stderr proc = a @ strip (stderr proc) @ b"
        "\<forall>c\<in>set a. isspace c" "\<forall>c\<in>set b. isspace c" by blast
  have e: "\<exists>err a b. field r (lit ''error'') = Some (JStr err)
           \<and> stderr proc = a @ err @ b
           \<and> (\<forall>c\<in>set a. isspace c) \<and> (\<forall>c\<in>set b. isspace c)
           \<and> (err \<noteq> [] \<longrightarrow> \<not> isspace (hd err) \<and> \<not> isspace (last err))"
    using fe ab strip_ends[of "stderr proc"] by blast
  from rstrip_nl_decompose[of "stdout proc"] obtain n where
    n: "stdout proc = rstrip_nl (stdout proc) @ replicate n 10" by blast
  have o: "\<exists>out n. field r (lit ''output'') = Some (JStr out)
           \<and> stdout proc = out @ replicate n 10
           \<and> (out \<noteq> [] \<longrightarrow> last out \<noteq> 10)"
    using fo n rstrip_nl_last[of "stdout proc"] by blast
  have c: "classification_of r = Some RuntimeError"
    unfolding eq by (rule classification_runtime)
  have x: "field r (lit ''exit_code'') = Some (JNum (returncode proc))"
    unfolding eq by simp
  from eq c x e o show ?thesis by blast
qed

theorem nonzero_exit_is_runtime_error_witness:
  "reaches_execution req0 (env0 (Returned proc_padded))
   \<and> run_result (env0 (Returned proc_padded)) = Returned proc_padded
   \<and> returncode proc_padded \<noteq> 0
   \<and> stdout proc_padded = lit ''out'' @ [10, 10]
   \<and> stderr proc_padded = [32, 10] @ lit ''boom: bad  input'' @ [9, 10]
   \<and> snd (run_code req0 (env0 (Returned proc_padded)))
        = Inr (JObj [(lit ''output'', JStr (lit ''out'')),
                     (lit ''error'', JStr (lit ''boom: bad  input'')),
                     (lit ''exit_code'', JNum 2)], 200)
   \<and> classification_of
        (JObj [(lit ''output'', JStr (lit ''out'')),
               (lit ''error'', JStr (lit ''boom: bad  input'')),
               (lit ''exit_code'', JNum 2)], 200) \<noteq> Some MemoryLimitExceeded
   \<and> strip (stderr proc_padded) = lit ''boom: bad  input''
   \<and> rstrip_nl (stdout proc_padded) = lit ''out''
   \<and> classification_of
        (JObj [(lit ''output'', JStr (lit ''out'')),
               (lit ''error'', JStr (lit ''boom: bad  input'')),
               (lit ''exit_code'', JNum 2)], 200) = Some RuntimeError"
proof -
  let ?r = "(JObj [(lit ''output'', JStr (lit ''out'')),
               (lit ''error'', JStr (lit ''boom: bad  input'')),
               (lit ''exit_code'', JNum 2)], 200::nat)"
  have h1: "reaches_execution req0 (env0 (Returned proc_padded))" by (rule reaches_req0)
  have h2: "run_result (env0 (Returned proc_padded)) = Returned proc_padded" by simp
  have h3: "returncode proc_padded \<noteq> 0" by (simp add: proc_padded_def)
  have h4: "snd (run_code req0 (env0 (Returned proc_padded))) = Inr ?r"
    by (simp add: run_code_req0 execute_completed completed_response_proc_padded)
  have h5: "classification_of ?r \<noteq> Some MemoryLimitExceeded"
    by (simp add: classification_of_def)
  have so: "stdout proc_padded = lit ''out'' @ [10, 10]" by (simp add: proc_padded_def)
  have se: "stderr proc_padded = [32, 10] @ lit ''boom: bad  input'' @ [9, 10]"
    by (simp add: proc_padded_def)
  note T = nonzero_exit_is_runtime_error[OF h1 h2 h3 h4 h5]
  from T have eq: "?r = (JObj [(lit ''output'', JStr (rstrip_nl (stdout proc_padded))),
                    (lit ''error'', JStr (strip (stderr proc_padded))),
                    (lit ''exit_code'', JNum (returncode proc_padded))], 200)"
    by (rule conjunct1)
  from eq have st: "strip (stderr proc_padded) = lit ''boom: bad  input''" by simp
  from eq have rs: "rstrip_nl (stdout proc_padded) = lit ''out''" by simp
  from T have c: "classification_of ?r = Some RuntimeError" by blast
  from h1 h2 h3 so se h4 h5 st rs c show ?thesis by blast
qed



text \<open>
  Claim C10. Exit code 0 is tested before the out-of-memory test: a completed run with exit
  code 0 whose stderr contains one of the markers is answered with the success response.
  A completed run is classified MemoryLimitExceeded exactly when its exit code is
  non-zero and it is 137 or stderr contains a marker.
\<close>

theorem exit_zero_precedes_oom_markers:
  assumes "reaches_execution parsed e" and "run_result e = Returned proc"
  shows "(returncode proc = 0 \<and> has_oom_marker (stderr proc) \<longrightarrow>
            snd (run_code parsed e)
              = Inr (JObj [(lit ''output'', JStr (rstrip_nl (stdout proc))),
                           (lit ''error'', JStr (lit ''''))], 200)
            \<and> classification_of (completed_response proc) = Some Success)
     \<and> snd (run_code parsed e) = Inr (completed_response proc)
     \<and> (classification_of (completed_response proc) = Some MemoryLimitExceeded \<longleftrightarrow>
          returncode proc \<noteq> 0 \<and> (returncode proc = 137 \<or> has_oom_marker (stderr proc)))"
proof -
  have res: "snd (run_code parsed e) = Inr (completed_response proc)"
    by (rule snd_run_code_completed[OF assms])
  have z: "returncode proc = 0 \<longrightarrow>
            snd (run_code parsed e)
              = Inr (JObj [(lit ''output'', JStr (rstrip_nl (stdout proc))),
                           (lit ''error'', JStr (lit ''''))], 200)
            \<and> classification_of (completed_response proc) = Some Success"
    using res classification_success[of "rstrip_nl (stdout proc)"]
    by (simp add: completed_response_zero)
  have m: "classification_of (completed_response proc) = Some MemoryLimitExceeded \<longleftrightarrow>
          returncode proc \<noteq> 0 \<and> (returncode proc = 137 \<or> has_oom_marker (stderr proc))"
    by (simp add: completed_response_classified oom_detected_def)
  from res z m show ?thesis by blast
qed

theorem exit_zero_precedes_oom_markers_witness:
  "reaches_execution req0 (env0 (Returned proc_killed_zero))
   \<and> run_result (env0 (Returned proc_killed_zero)) = Returned proc_killed_zero
   \<and> returncode proc_killed_zero = 0 \<and> has_oom_marker (stderr proc_killed_zero)
   \<and> snd (run_code req0 (env0 (Returned proc_killed_zero)))
       = Inr (JObj [(lit ''output'', JStr (rstrip_nl (stdout proc_killed_zero))),
                    (lit ''error'', JStr (lit ''''))], 200)
   \<and> classification_of (completed_response proc_killed_zero) = Some Success"
proof -
  have h1: "reaches_execution req0 (env0 (Returned proc_killed_zero))" by (rule reaches_req0)
  have h2: "run_result (env0 (Returned proc_killed_zero)) = Returned proc_killed_zero" by simp
  have h3: "returncode proc_killed_zero = 0" by (simp add: proc_killed_zero_def)
  have h4: "has_oom_marker (stderr proc_killed_zero)"
    by (simp add: proc_killed_zero_def has_oom_marker_def lit_def)
  from exit_zero_precedes_oom_markers[OF h1 h2] h1 h2 h3 h4 show ?thesis by blast
qed

section \<open>Validation\<close>

text \<open>
  Claim C6. When the value of \<open>code\<close> is not a string, or is a string of more than 5000
  code points, the handler answers with status 400 and an \<open>error\<close> message, and its trace
  of side effects is empty: no directory is made, no file is opened or written, and no
  subprocess is started.
\<close>

theorem invalid_code_rejected_without_effect:
  assumes "request_code parsed = Inr code" and "invalid_code code"
  shows "fst (run_code parsed e) = []
     \<and> (\<exists>msg. snd (run_code parsed e) = Inr (JObj [(lit ''error'', JStr msg)], 400))"
  using assms by (cases code) (simp_all add: run_code_def)

theorem invalid_code_rejected_without_effect_witness:
  "request_code req_number = Inr (JNum 5) \<and> invalid_code (JNum 5)
   \<and> request_code req_long = Inr (JStr (replicate 5001 97))
   \<and> invalid_code (JStr (replicate 5001 97))
   \<and> fst (run_code req_number (env0 (Returned proc_hello))) = []
   \<and> (\<exists>msg. snd (run_code req_number (env0 (Returned proc_hello)))
               = Inr (JObj [(lit ''error'', JStr msg)], 400))
   \<and> fst (run_code req_long (env0 (Returned proc_hello))) = []
   \<and> (\<exists>msg. snd (run_code req_long (env0 (Returned proc_hello)))
               = Inr (JObj [(lit ''error'', JStr msg)], 400))"
proof -
  have a1: "request_code req_number = Inr (JNum 5)"
    by (simp add: request_code_def req_number_def)
  have a2: "invalid_code (JNum 5)" by simp
  have b1: "request_code req_long = Inr (JStr (replicate 5001 97))"
    by (simp add: request_code_def req_long_def)
  have b2: "invalid_code (JStr (replicate 5001 97))" by simp
  from invalid_code_rejected_without_effect[OF a1 a2, of "env0 (Returned proc_hello)"]
       invalid_code_rejected_without_effect[OF b1 b2, of "env0 (Returned proc_hello)"]
       a1 a2 b1 b2
  show ?thesis by blast
qed

section \<open>Status of execution outcomes\<close>

text \<open>
  Claim C7. When the request reaches the launch and \<open>subprocess.run\<close> either returns or
  raises \<open>TimeoutExpired\<close>, the response has status 200 and carries one of the four
  classifications.
\<close>

theorem execution_outcomes_have_status_200:
  assumes "reaches_execution parsed e"
    and "run_result e = Returned proc \<or> run_result e = Raised TimeoutExpired"
  shows "\<exists>body c. snd (run_code parsed e) = Inr (body, 200)
           \<and> classification_of (body, 200) = Some c"
proof -
  from run_code_reaches[OF assms(1)]
  have s: "snd (run_code parsed e) = snd (execute e (new_file_id e))" by auto
  from assms(2) show ?thesis
  proof
    assume "run_result e = Returned proc"
    then have "snd (run_code parsed e) = Inr (completed_response proc)"
      unfolding s by (simp add: execute_completed)
    moreover have "completed_response proc = (fst (completed_response proc), 200)"
      by (simp add: prod_eq_iff)
    ultimately show ?thesis
      using completed_response_classified[of proc] by metis
  next
    assume "run_result e = Raised TimeoutExpired"
    then have "snd (run_code parsed e) = Inr timeout_response"
      unfolding s by (simp add: execute_timeout)
    moreover have "timeout_response = (fst timeout_response, 200)"
      by (simp add: timeout_response_def)
    ultimately show ?thesis
      using classification_timeout by metis
  qed
qed

theorem execution_outcomes_have_status_200_witness:
  "reaches_execution req0 (env0 (Returned proc_fail))
   \<and> reaches_execution req0 (env0 (Raised TimeoutExpired))
   \<and> (\<exists>body c. snd (run_code req0 (env0 (Returned proc_fail))) = Inr (body, 200)
           \<and> classification_of (body, 200) = Some c)
   \<and> (\<exists>body c. snd (run_code req0 (env0 (Raised TimeoutExpired))) = Inr (body, 200)
           \<and> classification_of (body, 200) = Some c)"
proof -
  have h1: "reaches_execution req0 (env0 (Returned proc_fail))" by (rule reaches_req0)
  have h2: "run_result (env0 (Returned proc_fail)) = Returned proc_fail
            \<or> run_result (env0 (Returned proc_fail)) = Raised TimeoutExpired" by simp
  have k1: "reaches_execution req0 (env0 (Raised TimeoutExpired))" by (rule reaches_req0)
  have k2: "run_result (env0 (Raised TimeoutExpired)) = Returned proc_fail
            \<or> run_result (env0 (Raised TimeoutExpired)) = Raised TimeoutExpired" by simp
  from execution_outcomes_have_status_200[OF h1 h2]
       execution_outcomes_have_status_200[OF k1 k2] h1 k1
  show ?thesis by blast
qed

section \<open>Artifact and sandbox identity\<close>



section \<open>Requests without a code field\<close>




end
